theory Spec2Isabelle
  imports Main "HOL-Library.Sublist"
begin

section \<open>Dynamic plugin control (lightningd/plugin_control.c)\<close>

text \<open>
  The file implements the JSON-RPC command \<^verbatim>\<open>plugin\<close> with its five subcommands
  and the three completion callbacks the plugin layer calls back into. Everything it
  does is a call into a collaborator (the JSON-RPC transport, the plugin registry, the
  file system), so the embedding threads one state through every function: the registry
  \<open>plugins\<close> and the log \<open>calls\<close> of the calls made to the transport and to the
  handshake layer, in the order the code makes them.
\<close>

subsection \<open>Data\<close>

text \<open>
  Modelled from the spec: \<^verbatim>\<open>enum plugin_state\<close> is declared in lightningd/plugin.h
  and the file only names \<^verbatim>\<open>INIT_COMPLETE\<close>. The lifecycle state is one of
  Starting, Active (\<^verbatim>\<open>INIT_COMPLETE\<close>) and Killed.
\<close>

datatype plugin_state = STARTING | INIT_COMPLETE | KILLED

text \<open>The fields of \<^verbatim>\<open>struct plugin\<close> the file reads: \<^verbatim>\<open>p->cmd\<close>,
  \<^verbatim>\<open>p->dynamic\<close>, \<^verbatim>\<open>p->plugin_state\<close>.\<close>

record plugin =
  cmd :: string
  dynamic :: bool
  plugin_state :: plugin_state

text \<open>A \<^verbatim>\<open>struct command *\<close> is a request handle.\<close>

type_synonym command = nat

datatype errcode = JSONRPC2_INVALID_PARAMS | PLUGIN_ERROR

datatype json =
    JString string
  | JBool bool
  | JArray "json list"
  | JObject "(string \<times> json) list"

text \<open>A \<^verbatim>\<open>struct json_stream\<close> opened by \<^verbatim>\<open>json_stream_success\<close>: the fields
  of the result object, in the order they were added.\<close>

type_synonym json_stream = "(string \<times> json) list"

text \<open>The calls the file makes to the transport and to the plugin layer.\<close>

datatype event =
    Command_fail command errcode string
  | Command_success command json_stream
  | Plugin_kill plugin string
  | Plugin_send_getmanifest plugin
  | Plugins_send_getmanifest

text \<open>The three \<^verbatim>\<open>struct command_result\<close> markers a handler can return.\<close>

datatype command_result = Param_failed | Complete | Pending

text \<open>
  Modelled from the spec: \<^verbatim>\<open>struct lightningd\<close> and \<^verbatim>\<open>struct plugins\<close> are
  declared in lightningd/lightningd.h and lightningd/plugin.h. The file reads the
  registry list \<^verbatim>\<open>cmd->ld->plugins->plugins\<close>. A directory scan yields the plugins
  it newly registered, the members of the cohort the request is about to open; the C
  functions return no such value, so the registry object keeps them, in
  \<open>newly_registered\<close>. \<open>calls\<close> is the log of the calls made.
\<close>

record lightningd =
  plugins :: "plugin list"
  newly_registered :: "plugin list"
  calls :: "event list"

text \<open>
  What the file asks of the world outside the daemon's state: the global
  \<^verbatim>\<open>deprecated_apis\<close>, the answers of \<^verbatim>\<open>access(2)\<close> and
  \<^verbatim>\<open>strerror(errno)\<close>, whether submitting the getmanifest request to a plugin
  fails, what a directory scan finds, the error string of a scan that may not skip a
  path and cannot register it, and the flag the plugin layer gives a fresh record.
\<close>

record env =
  deprecated_apis :: bool
  access_X_OK :: "string \<Rightarrow> bool"
  access_F_OK :: "string \<Rightarrow> bool"
  strerror_errno :: "string \<Rightarrow> string"
  send_getmanifest_err :: "string \<Rightarrow> string option"
  discover_executables :: "string \<Rightarrow> bool \<Rightarrow> string + string list"
  default_dir_executables :: "string list"
  register_failed :: "string \<Rightarrow> string"
  fresh_dynamic :: "string \<Rightarrow> bool"

subsection \<open>The transport (lightningd/jsonrpc.c, common/json_stream.c)\<close>

text \<open>
  Modelled from the spec: \<^verbatim>\<open>command_fail\<close> is defined in lightningd/jsonrpc.c,
  which is not part of this file. It hands a terminal failure reply for the request to
  the transport (the spec's \<^verbatim>\<open>resolve\<close>). A reply is recorded as the call itself.
\<close>

definition command_fail ::
  "command \<Rightarrow> errcode \<Rightarrow> string \<Rightarrow> lightningd \<Rightarrow> command_result \<times> lightningd" where
  "command_fail c code msg ld = (Complete, ld\<lparr>calls := calls ld @ [Command_fail c code msg]\<rparr>)"

text \<open>
  Modelled from the spec: \<^verbatim>\<open>command_success\<close> is defined in lightningd/jsonrpc.c.
  It hands a terminal success reply, the finished response, to the transport.
\<close>

definition command_success ::
  "command \<Rightarrow> json_stream \<Rightarrow> lightningd \<Rightarrow> command_result \<times> lightningd" where
  "command_success c response ld =
     (Complete, ld\<lparr>calls := calls ld @ [Command_success c response]\<rparr>)"

text \<open>
  Modelled from the spec: \<^verbatim>\<open>command_still_pending\<close> is defined in
  lightningd/jsonrpc.c. It returns the pending marker: the reply will come later.
\<close>

definition command_still_pending :: "command \<Rightarrow> lightningd \<Rightarrow> command_result \<times> lightningd" where
  "command_still_pending c ld = (Pending, ld)"

text \<open>
  Modelled from the spec: \<^verbatim>\<open>command_param_failed\<close> is defined in
  lightningd/jsonrpc.c. It returns the marker of a request whose parameters did not
  parse.
\<close>

definition command_param_failed :: "lightningd \<Rightarrow> command_result \<times> lightningd" where
  "command_param_failed ld = (Param_failed, ld)"

text \<open>
  Modelled from the spec: \<^verbatim>\<open>json_stream_success\<close> is defined in
  lightningd/jsonrpc.c. It opens the result object of a success reply, empty at first.
\<close>

definition json_stream_success :: "command \<Rightarrow> json_stream" where
  "json_stream_success c = []"

text \<open>
  Modelled from the spec: \<^verbatim>\<open>json_add_string\<close> is defined in common/json_stream.c.
  It appends a string field to the object being written.
\<close>

definition json_add_string :: "json_stream \<Rightarrow> string \<Rightarrow> string \<Rightarrow> json_stream" where
  "json_add_string response key v = response @ [(key, JString v)]"

text \<open>
  Modelled from the spec: \<^verbatim>\<open>json_array_start\<close>, \<^verbatim>\<open>json_object_start\<close>,
  \<^verbatim>\<open>json_object_end\<close> and \<^verbatim>\<open>json_array_end\<close> are defined in
  common/json_stream.c. Between them they append one field holding an array of objects;
  \<open>json_add_array\<close> appends the finished array.
\<close>

definition json_add_array :: "json_stream \<Rightarrow> string \<Rightarrow> json list \<Rightarrow> json_stream" where
  "json_add_array response key vs = response @ [(key, JArray vs)]"

subsection \<open>The plugin layer (lightningd/plugin.c)\<close>

text \<open>
  Modelled from the spec: \<^verbatim>\<open>path_basename\<close> is defined in ccan/path. The basename
  of a path is what follows its last slash.
\<close>

definition path_basename :: "string \<Rightarrow> string" where
  "path_basename s = rev (takeWhile (\<lambda>ch. ch \<noteq> CHR ''/'') (rev s))"

text \<open>
  Modelled from the spec: \<^verbatim>\<open>plugin_paths_match\<close> is defined in lightningd/plugin.c.
  The matcher accepts exact path equality or equality of the identifier with the
  basename of the registry's stored path.
\<close>

definition plugin_paths_match :: "string \<Rightarrow> string \<Rightarrow> bool" where
  "plugin_paths_match stored name = (stored = name \<or> path_basename stored = name)"

text \<open>
  Modelled from the spec: \<^verbatim>\<open>plugin_register\<close> is defined in lightningd/plugin.c.
  It answers NULL when the path is already registered; otherwise it appends a record in
  the Starting state to the registry and returns it.
\<close>

definition plugin_register :: "env \<Rightarrow> plugin list \<Rightarrow> string \<Rightarrow> (plugin \<times> plugin list) option" where
  "plugin_register env ps path =
     (if path \<in> set (map cmd ps) then None
      else let p = \<lparr>cmd = path, dynamic = fresh_dynamic env path, plugin_state = STARTING\<rparr>
           in Some (p, ps @ [p]))"

text \<open>
  Modelled from the spec: \<^verbatim>\<open>plugin_send_getmanifest\<close> is defined in
  lightningd/plugin.c. It begins the handshake with one plugin and answers an error
  string when the submission fails.
\<close>

definition plugin_send_getmanifest :: "env \<Rightarrow> plugin \<Rightarrow> lightningd \<Rightarrow> string option \<times> lightningd" where
  "plugin_send_getmanifest env p ld =
     (send_getmanifest_err env (cmd p), ld\<lparr>calls := calls ld @ [Plugin_send_getmanifest p]\<rparr>)"

text \<open>
  Modelled from the spec: \<^verbatim>\<open>plugins_send_getmanifest\<close> is defined in
  lightningd/plugin.c. It begins the handshake with the plugins that wait for it.
\<close>

definition plugins_send_getmanifest :: "lightningd \<Rightarrow> lightningd" where
  "plugins_send_getmanifest ld = ld\<lparr>calls := calls ld @ [Plugins_send_getmanifest]\<rparr>"

text \<open>
  Modelled from the spec: \<^verbatim>\<open>plugin_kill\<close> is defined in lightningd/plugin.c. The
  record, found at position \<open>i\<close> of the registry, goes to the Killed state.
\<close>

definition plugin_kill :: "nat \<Rightarrow> plugin \<Rightarrow> string \<Rightarrow> lightningd \<Rightarrow> lightningd" where
  "plugin_kill i p msg ld =
     ld\<lparr>plugins := (plugins ld)[i := p\<lparr>plugin_state := KILLED\<rparr>],
        calls := calls ld @ [Plugin_kill p msg]\<rparr>"

text \<open>
  Modelled from the spec: the registration loop of a directory scan in
  lightningd/plugin.c. Each path found goes to \<^verbatim>\<open>plugin_register\<close>; a new record
  joins the registry and the plugins this scan registered. A path that is registered
  already is passed over silently when the scan may skip known plugins; otherwise the
  scan stops there with an error, and what it registered before stays registered.
\<close>

fun register_each :: "env \<Rightarrow> bool \<Rightarrow> string list \<Rightarrow> lightningd \<Rightarrow> string option \<times> lightningd" where
  "register_each env skip_known [] ld = (None, ld)"
| "register_each env skip_known (path # paths) ld =
     (case plugin_register env (plugins ld) path of
        None \<Rightarrow>
          if skip_known then register_each env skip_known paths ld
          else (Some (register_failed env path), ld)
      | Some (p, ps) \<Rightarrow>
          register_each env skip_known paths
            (ld\<lparr>plugins := ps, newly_registered := newly_registered ld @ [p]\<rparr>))"

text \<open>
  Modelled from the spec: \<^verbatim>\<open>add_plugin_dir\<close> is defined in lightningd/plugin.c. It
  scans the directory and registers what it finds, starting from no newly registered
  plugin; its last argument says whether known plugins are skipped. It returns the error
  string of a scan that fails, NULL otherwise.
\<close>

definition add_plugin_dir :: "env \<Rightarrow> lightningd \<Rightarrow> string \<Rightarrow> bool \<Rightarrow> string option \<times> lightningd" where
  "add_plugin_dir env ld dir skip_known =
     (case discover_executables env dir skip_known of
        Inl err \<Rightarrow> (Some err, ld)
      | Inr paths \<Rightarrow> register_each env skip_known paths (ld\<lparr>newly_registered := []\<rparr>))"

text \<open>
  Modelled from the spec: \<^verbatim>\<open>plugins_add_default_dir\<close> is defined in
  lightningd/plugin.c. It registers what is new in the default directory; the source
  says of it "This will not fail on already registered error": known plugins are
  skipped, and no error is returned.
\<close>

definition plugins_add_default_dir :: "env \<Rightarrow> lightningd \<Rightarrow> lightningd" where
  "plugins_add_default_dir env ld =
     snd (register_each env True (default_dir_executables env) (ld\<lparr>newly_registered := []\<rparr>))"

subsection \<open>The parameter parser (common/param.c)\<close>

text \<open>
  The request's parameters are the positional tokens. A parse that fails is reported to
  the client by the parser; the handler then returns \<^verbatim>\<open>command_param_failed()\<close>.
\<close>

text \<open>
  Modelled from the spec: \<^verbatim>\<open>param_subcommand\<close> is defined in common/param.c. The
  first token is the subcommand, accepted when it is one of the names given.
\<close>

definition param_subcommand :: "string list \<Rightarrow> string list \<Rightarrow> string option" where
  "param_subcommand params names =
     (case params of [] \<Rightarrow> None | t # _ \<Rightarrow> if t \<in> set names then Some t else None)"

text \<open>
  Modelled from the spec: \<^verbatim>\<open>param\<close> is defined in common/param.c. Called with
  \<^verbatim>\<open>p_req("subcommand", param_ignore, ..)\<close> and one \<^verbatim>\<open>p_req(.., param_string, ..)\<close>
  it wants the subcommand and exactly one more token, which it returns.
\<close>

definition param_subcommand_string :: "string list \<Rightarrow> string option" where
  "param_subcommand_string params = (case params of [_, v] \<Rightarrow> Some v | _ \<Rightarrow> None)"

text \<open>
  Modelled from the spec: \<^verbatim>\<open>param\<close> called with
  \<^verbatim>\<open>p_req("subcommand", param_ignore, ..)\<close> alone wants the subcommand and nothing
  else.
\<close>

definition param_subcommand_only :: "string list \<Rightarrow> bool" where
  "param_subcommand_only params = (case params of [_] \<Rightarrow> True | _ \<Rightarrow> False)"

subsection \<open>The functions of plugin\_control.c\<close>

definition plugin_dynamic_list_plugins ::
  "command \<Rightarrow> plugin list \<Rightarrow> lightningd \<Rightarrow> command_result \<times> lightningd" where
  "plugin_dynamic_list_plugins c ps ld =
     (let response = json_stream_success c;
          response = json_add_array response ''plugins''
            (map (\<lambda>p. JObject [(''name'', JString (cmd p)),
                               (''active'', JBool (plugin_state p = INIT_COMPLETE))]) ps)
      in command_success c response ld)"

definition plugin_cmd_killed ::
  "command \<Rightarrow> plugin \<Rightarrow> string \<Rightarrow> lightningd \<Rightarrow> command_result \<times> lightningd" where
  "plugin_cmd_killed c p msg ld = command_fail c PLUGIN_ERROR (cmd p @ '': '' @ msg) ld"

text \<open>\<^verbatim>\<open>plugin->plugins\<close> is the registry the record belongs to.\<close>

definition plugin_cmd_succeeded ::
  "command \<Rightarrow> plugin \<Rightarrow> lightningd \<Rightarrow> command_result \<times> lightningd" where
  "plugin_cmd_succeeded c p ld = plugin_dynamic_list_plugins c (plugins ld) ld"

definition plugin_cmd_all_complete ::
  "plugin list \<Rightarrow> command \<Rightarrow> lightningd \<Rightarrow> command_result \<times> lightningd" where
  "plugin_cmd_all_complete ps c ld = plugin_dynamic_list_plugins c ps ld"

text \<open>
  Modelled from the spec: \<^verbatim>\<open>plugin_register_all_complete\<close> is defined in
  lightningd/plugin.c. The source says of it "If none added, this calls
  plugin_cmd_all_complete immediately": when the scan of this request registered
  nothing (the cohort has size 0) it returns the result of that call; otherwise it
  returns NULL and the command waits for the cohort.
\<close>

definition plugin_register_all_complete ::
  "lightningd \<Rightarrow> command \<Rightarrow> (command_result \<times> lightningd) option" where
  "plugin_register_all_complete ld c =
     (if newly_registered ld = [] then Some (plugin_cmd_all_complete (plugins ld) c ld)
      else None)"

definition plugin_dynamic_start ::
  "env \<Rightarrow> command \<Rightarrow> string \<Rightarrow> lightningd \<Rightarrow> command_result \<times> lightningd" where
  "plugin_dynamic_start env c plugin_path ld =
     (case plugin_register env (plugins ld) plugin_path of
        None \<Rightarrow>
          command_fail c JSONRPC2_INVALID_PARAMS (plugin_path @ '': already registered'') ld
      | Some (p, ps) \<Rightarrow>
          (case plugin_send_getmanifest env p (ld\<lparr>plugins := ps\<rparr>) of
             (Some err, ld') \<Rightarrow> command_fail c PLUGIN_ERROR (plugin_path @ '': '' @ err) ld'
           | (None, ld') \<Rightarrow> command_still_pending c ld'))"

definition plugin_dynamic_startdir ::
  "env \<Rightarrow> command \<Rightarrow> string \<Rightarrow> lightningd \<Rightarrow> command_result \<times> lightningd" where
  "plugin_dynamic_startdir env c dir_path ld =
     (case add_plugin_dir env ld dir_path False of
        (Some err, ld') \<Rightarrow> command_fail c JSONRPC2_INVALID_PARAMS err ld'
      | (None, ld') \<Rightarrow>
          (case plugin_register_all_complete ld' c of
             Some res \<Rightarrow> res
           | None \<Rightarrow> command_still_pending c (plugins_send_getmanifest ld')))"

text \<open>The \<^verbatim>\<open>list_for_each\<close> loop of \<^verbatim>\<open>plugin_dynamic_stop\<close>, from position
  \<open>i\<close> of the registry on.\<close>

fun plugin_dynamic_stop_from ::
  "env \<Rightarrow> command \<Rightarrow> string \<Rightarrow> nat \<Rightarrow> plugin list \<Rightarrow> lightningd \<Rightarrow> command_result \<times> lightningd" where
  "plugin_dynamic_stop_from env c plugin_name i [] ld =
     command_fail c JSONRPC2_INVALID_PARAMS (''Could not find plugin '' @ plugin_name) ld"
| "plugin_dynamic_stop_from env c plugin_name i (p # ps) ld =
     (if plugin_paths_match (cmd p) plugin_name then
        (if \<not> dynamic p then
           command_fail c JSONRPC2_INVALID_PARAMS
             (plugin_name @ '' cannot be managed when lightningd is up'') ld
         else
           (let ld' = plugin_kill i p ''stopped by lightningd via RPC'' ld;
                response = json_stream_success c;
                response = (if deprecated_apis env
                            then json_add_string response ''''
                                   (''Successfully stopped '' @ plugin_name @ ''.'')
                            else response);
                response = json_add_string response ''result''
                             (''Successfully stopped '' @ plugin_name @ ''.'')
            in command_success c response ld'))
      else plugin_dynamic_stop_from env c plugin_name (Suc i) ps ld)"

definition plugin_dynamic_stop ::
  "env \<Rightarrow> command \<Rightarrow> string \<Rightarrow> lightningd \<Rightarrow> command_result \<times> lightningd" where
  "plugin_dynamic_stop env c plugin_name ld =
     plugin_dynamic_stop_from env c plugin_name 0 (plugins ld) ld"

definition plugin_dynamic_rescan_plugins ::
  "env \<Rightarrow> command \<Rightarrow> lightningd \<Rightarrow> command_result \<times> lightningd" where
  "plugin_dynamic_rescan_plugins env c ld =
     (let ld' = plugins_add_default_dir env ld
      in case plugin_register_all_complete ld' c of
           Some res \<Rightarrow> res
         | None \<Rightarrow> command_still_pending c ld')"

text \<open>
  The dispatch chain of \<^verbatim>\<open>json_plugin_control\<close> on the token that
  \<^verbatim>\<open>param_subcommand\<close> returned. \<open>None\<close> is the trailing \<^verbatim>\<open>abort()\<close>.
\<close>

definition json_plugin_control_subcmd ::
  "env \<Rightarrow> command \<Rightarrow> string \<Rightarrow> string list \<Rightarrow> lightningd \<Rightarrow> (command_result \<times> lightningd) option" where
  "json_plugin_control_subcmd env c subcmd params ld =
     (if subcmd = ''stop'' then
        (case param_subcommand_string params of
           None \<Rightarrow> Some (command_param_failed ld)
         | Some plugin_name \<Rightarrow> Some (plugin_dynamic_stop env c plugin_name ld))
      else if subcmd = ''start'' then
        (case param_subcommand_string params of
           None \<Rightarrow> Some (command_param_failed ld)
         | Some plugin_path \<Rightarrow>
             if access_X_OK env plugin_path
             then Some (plugin_dynamic_start env c plugin_path ld)
             else Some (command_fail c JSONRPC2_INVALID_PARAMS
                          (plugin_path @ '' is not executable: '' @ strerror_errno env plugin_path)
                          ld))
      else if subcmd = ''startdir'' then
        (case param_subcommand_string params of
           None \<Rightarrow> Some (command_param_failed ld)
         | Some dir_path \<Rightarrow>
             if access_F_OK env dir_path
             then Some (plugin_dynamic_startdir env c dir_path ld)
             else Some (command_fail c JSONRPC2_INVALID_PARAMS
                          (''Could not open '' @ dir_path) ld))
      else if subcmd = ''rescan'' then
        (if \<not> param_subcommand_only params then Some (command_param_failed ld)
         else Some (plugin_dynamic_rescan_plugins env c ld))
      else if subcmd = ''list'' then
        (if \<not> param_subcommand_only params then Some (command_param_failed ld)
         else Some (plugin_dynamic_list_plugins c (plugins ld) ld))
      else None)"

definition subcommands :: "string list" where
  "subcommands = [''start'', ''stop'', ''startdir'', ''rescan'', ''list'']"

definition json_plugin_control ::
  "env \<Rightarrow> command \<Rightarrow> string list \<Rightarrow> lightningd \<Rightarrow> (command_result \<times> lightningd) option" where
  "json_plugin_control env c params ld =
     (case param_subcommand params subcommands of
        None \<Rightarrow> Some (command_param_failed ld)
      | Some subcmd \<Rightarrow> json_plugin_control_subcmd env c subcmd params ld)"

subsection \<open>Completion signals and what is read off the log\<close>

text \<open>
  The plugin layer reports the outcome of a handshake by calling one of the three
  completion callbacks with the command that waits for it.
\<close>

datatype signal = Succeeded plugin | Killed plugin string | All_complete

fun deliver :: "command \<Rightarrow> signal \<Rightarrow> lightningd \<Rightarrow> command_result \<times> lightningd" where
  "deliver c (Succeeded p) ld = plugin_cmd_succeeded c p ld"
| "deliver c (Killed p msg) ld = plugin_cmd_killed c p msg ld"
| "deliver c All_complete ld = plugin_cmd_all_complete (plugins ld) c ld"

fun deliver_all :: "command \<Rightarrow> signal list \<Rightarrow> lightningd \<Rightarrow> lightningd" where
  "deliver_all c [] ld = ld"
| "deliver_all c (s # ss) ld = deliver_all c ss (snd (deliver c s ld))"

text \<open>The terminal replies handed to the transport for one command.\<close>

fun is_reply_to :: "command \<Rightarrow> event \<Rightarrow> bool" where
  "is_reply_to c (Command_fail c' code msg) = (c' = c)"
| "is_reply_to c (Command_success c' response) = (c' = c)"
| "is_reply_to c (Plugin_kill p msg) = False"
| "is_reply_to c (Plugin_send_getmanifest p) = False"
| "is_reply_to c Plugins_send_getmanifest = False"

definition replies_to :: "command \<Rightarrow> lightningd \<Rightarrow> event list" where
  "replies_to c ld = filter (is_reply_to c) (calls ld)"

text \<open>The records \<^verbatim>\<open>plugin_kill\<close> was called on, and the calls a step added.\<close>

fun kills :: "event list \<Rightarrow> plugin list" where
  "kills [] = []"
| "kills (Plugin_kill p msg # evs) = p # kills evs"
| "kills (ev # evs) = kills evs"

fun handshakes :: "event list \<Rightarrow> event list" where
  "handshakes [] = []"
| "handshakes (Plugin_send_getmanifest p # evs) = Plugin_send_getmanifest p # handshakes evs"
| "handshakes (Plugins_send_getmanifest # evs) = Plugins_send_getmanifest # handshakes evs"
| "handshakes (ev # evs) = handshakes evs"

definition new_calls :: "lightningd \<Rightarrow> lightningd \<Rightarrow> event list" where
  "new_calls ld ld' = drop (length (calls ld)) (calls ld')"

subsection \<open>A concrete daemon\<close>

text \<open>
  One statically loaded plugin and one dynamic plugin, both initialised; a file system
  in which \<^verbatim>\<open>/bin/true\<close> is the only path that passes \<^verbatim>\<open>access(X_OK)\<close>, and
  with two directories: \<^verbatim>\<open>/empty/dir\<close>, with nothing in it, and
  \<^verbatim>\<open>/opt/plugins\<close>, which holds the dynamic plugin and nothing else.
\<close>

definition env0 :: env where
  "env0 = \<lparr>deprecated_apis = False,
           access_X_OK = (\<lambda>path. path = ''/bin/true''),
           access_F_OK = (\<lambda>path. path = ''/empty/dir'' \<or> path = ''/opt/plugins''),
           strerror_errno = (\<lambda>path. ''No such file or directory''),
           send_getmanifest_err = (\<lambda>path. None),
           discover_executables =
             (\<lambda>dir skip_known. if dir = ''/opt/plugins'' then Inr [''/opt/plugins/foo''] else Inr []),
           default_dir_executables = [],
           register_failed = (\<lambda>path. ''Failed to register '' @ path),
           fresh_dynamic = (\<lambda>path. True)\<rparr>"

definition foo :: plugin where
  "foo = \<lparr>cmd = ''/opt/plugins/foo'', dynamic = True, plugin_state = INIT_COMPLETE\<rparr>"

definition bcli :: plugin where
  "bcli = \<lparr>cmd = ''/usr/libexec/bcli'', dynamic = False, plugin_state = INIT_COMPLETE\<rparr>"

definition ld0 :: lightningd where
  "ld0 = \<lparr>plugins = [bcli, foo], newly_registered = [], calls = []\<rparr>"

section \<open>Stopping a plugin\<close>

text \<open>
  The loop of \<^verbatim>\<open>plugin_dynamic_stop\<close> returns at the first record of the registry
  whose stored path matches the name: that record is the one the request targets.
\<close>

lemma stop_from_find:
  "plugin_dynamic_stop_from env c name i ps ld =
     (case find (\<lambda>p. plugin_paths_match (cmd p) name) ps of
        None \<Rightarrow> command_fail c JSONRPC2_INVALID_PARAMS (''Could not find plugin '' @ name) ld
      | Some p \<Rightarrow>
          if \<not> dynamic p then
            command_fail c JSONRPC2_INVALID_PARAMS
              (name @ '' cannot be managed when lightningd is up'') ld
          else
            command_success c
              ((if deprecated_apis env
                then [('''', JString (''Successfully stopped '' @ name @ ''.''))] else [])
               @ [(''result'', JString (''Successfully stopped '' @ name @ ''.''))])
              (plugin_kill
                 (i + length (takeWhile (\<lambda>p. \<not> plugin_paths_match (cmd p) name) ps)) p
                 ''stopped by lightningd via RPC'' ld))"
proof (induction ps arbitrary: i)
  case Nil
  show ?case by simp
next
  case (Cons p ps)
  show ?case
  proof (cases "plugin_paths_match (cmd p) name")
    case True
    then show ?thesis
      by (simp add: json_stream_success_def json_add_string_def Let_def)
  next
    case False
    then show ?thesis
      using Cons.IH [of "Suc i"] by (simp split: option.split)
  qed
qed

lemma mentions_cannot_be_managed:
  "sublist ''cannot be managed'' (name @ '' cannot be managed when lightningd is up'')"
  unfolding sublist_def
  by (rule exI [of _ "name @ '' ''"], rule exI [of _ "'' when lightningd is up''"]) simp

lemma mentions_could_not_find:
  "sublist ''Could not find'' (''Could not find plugin '' @ name)"
  unfolding sublist_def
  by (rule exI [of _ "[]"], rule exI [of _ "'' plugin '' @ name"]) simp

lemma mentions_already_registered:
  "sublist ''already registered'' (path @ '': already registered'')"
  unfolding sublist_def
  by (rule exI [of _ "path @ '': ''"], rule exI [of _ "[]"]) simp

text \<open>
  Claim C2. A stop request whose name matches a dynamic plugin is to kill the record and
  then reply success with the list of plugins, the reply
  \<^verbatim>\<open>plugin_dynamic_list_plugins\<close> builds and whose header comment calls "Returned by
  all subcommands on success". The code does not: stopping the dynamic plugin
  \<^verbatim>\<open>foo\<close> kills it and replies with the stop message alone, which is not what
  \<^verbatim>\<open>plugin_dynamic_list_plugins\<close> replies after the kill, whether the list is the
  registry before the kill or after it.
\<close>

theorem stop_reply_is_not_the_snapshot:
  "plugin_dynamic_stop env0 7 ''foo'' ld0 =
     (Complete,
      ld0\<lparr>plugins := [bcli, foo\<lparr>plugin_state := KILLED\<rparr>],
          calls := [Plugin_kill foo ''stopped by lightningd via RPC'',
                    Command_success 7 [(''result'', JString ''Successfully stopped foo.'')]]\<rparr>)
   \<and> plugin_dynamic_stop env0 7 ''foo'' ld0 \<noteq>
       plugin_dynamic_list_plugins 7 (plugins ld0)
         (plugin_kill 1 foo ''stopped by lightningd via RPC'' ld0)
   \<and> plugin_dynamic_stop env0 7 ''foo'' ld0 \<noteq>
       plugin_dynamic_list_plugins 7
         (plugins (plugin_kill 1 foo ''stopped by lightningd via RPC'' ld0))
         (plugin_kill 1 foo ''stopped by lightningd via RPC'' ld0)"
  by (simp add: plugin_dynamic_stop_def ld0_def env0_def foo_def bcli_def
      plugin_paths_match_def path_basename_def plugin_kill_def command_success_def
      json_stream_success_def json_add_string_def json_add_array_def
      plugin_dynamic_list_plugins_def)

text \<open>
  Claim C3. A stop request whose target (the first matching record) is not dynamic fails
  with \<^verbatim>\<open>JSONRPC2_INVALID_PARAMS\<close> and a detail that mentions "cannot be managed"; a
  stop request whose name matches no registered plugin fails with
  \<^verbatim>\<open>JSONRPC2_INVALID_PARAMS\<close> and a detail that mentions "Could not find". Neither
  touches the registry, and the two details are never the same string.
\<close>

theorem stop_failures_distinguished:
  "(find (\<lambda>p. plugin_paths_match (cmd p) name) (plugins ld) = Some p \<and> \<not> dynamic p \<longrightarrow>
      plugin_dynamic_stop env c name ld =
        (Complete, ld\<lparr>calls := calls ld @
           [Command_fail c JSONRPC2_INVALID_PARAMS
              (name @ '' cannot be managed when lightningd is up'')]\<rparr>))
   \<and> (find (\<lambda>p. plugin_paths_match (cmd p) name) (plugins ld) = None \<longrightarrow>
      plugin_dynamic_stop env c name ld =
        (Complete, ld\<lparr>calls := calls ld @
           [Command_fail c JSONRPC2_INVALID_PARAMS (''Could not find plugin '' @ name)]\<rparr>))
   \<and> sublist ''cannot be managed'' (name @ '' cannot be managed when lightningd is up'')
   \<and> sublist ''Could not find'' (''Could not find plugin '' @ name)
   \<and> name @ '' cannot be managed when lightningd is up'' \<noteq> ''Could not find plugin '' @ name"
proof -
  have "length (name @ '' cannot be managed when lightningd is up'')
          \<noteq> length (''Could not find plugin '' @ name)"
    by simp
  then have "name @ '' cannot be managed when lightningd is up'' \<noteq> ''Could not find plugin '' @ name"
    by metis
  then show ?thesis
    by (simp add: plugin_dynamic_stop_def stop_from_find command_fail_def
        mentions_cannot_be_managed mentions_could_not_find del: append_eq_append_conv2)
qed

theorem stop_failures_distinguished_witness:
  "plugin_dynamic_stop env0 7 ''bcli'' ld0 =
     (Complete, ld0\<lparr>calls := [Command_fail 7 JSONRPC2_INVALID_PARAMS
                                 ''bcli cannot be managed when lightningd is up'']\<rparr>)
   \<and> plugin_dynamic_stop env0 7 ''nope'' ld0 =
     (Complete, ld0\<lparr>calls := [Command_fail 7 JSONRPC2_INVALID_PARAMS
                                 ''Could not find plugin nope'']\<rparr>)"
proof -
  have a: "find (\<lambda>p. plugin_paths_match (cmd p) ''bcli'') (plugins ld0) = Some bcli \<and> \<not> dynamic bcli"
    by (simp add: ld0_def bcli_def foo_def plugin_paths_match_def path_basename_def)
  have b: "find (\<lambda>p. plugin_paths_match (cmd p) ''nope'') (plugins ld0) = None"
    by (simp add: ld0_def bcli_def foo_def plugin_paths_match_def path_basename_def)
  show ?thesis
    using stop_failures_distinguished [of "''bcli''" ld0 bcli env0 7]
      stop_failures_distinguished [of "''nope''" ld0 bcli env0 7] a b
    by (simp add: ld0_def)
qed

text \<open>
  Claim C4. When \<^verbatim>\<open>deprecated_apis\<close> is set, the success reply of a stop request
  holds the message \<^verbatim>\<open>Successfully stopped <name>.\<close> under the empty key and under
  \<^verbatim>\<open>result\<close>, the same string twice; when it is unset the reply holds the
  \<^verbatim>\<open>result\<close> key alone.
\<close>

theorem stop_reply_deprecated_key:
  assumes "find (\<lambda>q. plugin_paths_match (cmd q) name) (plugins ld) = Some p"
    and "dynamic p"
  shows "fst (plugin_dynamic_stop env c name ld) = Complete
     \<and> last (calls (snd (plugin_dynamic_stop env c name ld))) =
         Command_success c
           (if deprecated_apis env
            then [('''', JString (''Successfully stopped '' @ name @ ''.'')),
                  (''result'', JString (''Successfully stopped '' @ name @ ''.''))]
            else [(''result'', JString (''Successfully stopped '' @ name @ ''.''))])"
  using assms
  by (simp add: plugin_dynamic_stop_def stop_from_find command_success_def plugin_kill_def)

theorem stop_reply_deprecated_key_witness:
  "last (calls (snd (plugin_dynamic_stop (env0\<lparr>deprecated_apis := True\<rparr>) 7 ''foo'' ld0))) =
     Command_success 7 [('''', JString ''Successfully stopped foo.''),
                        (''result'', JString ''Successfully stopped foo.'')]
   \<and> last (calls (snd (plugin_dynamic_stop env0 7 ''foo'' ld0))) =
     Command_success 7 [(''result'', JString ''Successfully stopped foo.'')]"
proof -
  have a: "find (\<lambda>q. plugin_paths_match (cmd q) ''foo'') (plugins ld0) = Some foo"
    by (simp add: ld0_def bcli_def foo_def plugin_paths_match_def path_basename_def)
  have b: "dynamic foo"
    by (simp add: foo_def)
  have d: "\<not> deprecated_apis env0"
    by (simp add: env0_def)
  show ?thesis
    using stop_reply_deprecated_key [OF a b, of "env0\<lparr>deprecated_apis := True\<rparr>" 7]
      stop_reply_deprecated_key [OF a b, of env0 7] d
    by simp
qed

section \<open>Starting a plugin\<close>

text \<open>
  Claim C5. A start request for a path that is already registered fails at once with
  \<^verbatim>\<open>JSONRPC2_INVALID_PARAMS\<close> and a detail that mentions "already registered". The
  registry is left as it was, no getmanifest request is sent (no cohort is opened) and
  the command is not left pending. \<^verbatim>\<open>json_plugin_control\<close> reaches this handler when
  the path is executable.
\<close>

theorem start_already_registered:
  assumes "plugin_path \<in> set (map cmd (plugins ld))"
  shows "plugin_dynamic_start env c plugin_path ld =
           (Complete, ld\<lparr>calls := calls ld @
              [Command_fail c JSONRPC2_INVALID_PARAMS (plugin_path @ '': already registered'')]\<rparr>)
     \<and> sublist ''already registered'' (plugin_path @ '': already registered'')
     \<and> fst (plugin_dynamic_start env c plugin_path ld) \<noteq> Pending
     \<and> handshakes (new_calls ld (snd (plugin_dynamic_start env c plugin_path ld))) = []
     \<and> plugins (snd (plugin_dynamic_start env c plugin_path ld)) = plugins ld
     \<and> (access_X_OK env plugin_path \<longrightarrow>
          json_plugin_control env c [''start'', plugin_path] ld =
            Some (plugin_dynamic_start env c plugin_path ld))"
proof -
  have reg: "plugin_register env (plugins ld) plugin_path = None"
    using assms by (simp add: plugin_register_def)
  have eq: "plugin_dynamic_start env c plugin_path ld =
           (Complete, ld\<lparr>calls := calls ld @
              [Command_fail c JSONRPC2_INVALID_PARAMS (plugin_path @ '': already registered'')]\<rparr>)"
    by (simp add: plugin_dynamic_start_def reg command_fail_def)
  have disp: "access_X_OK env plugin_path \<longrightarrow>
          json_plugin_control env c [''start'', plugin_path] ld =
            Some (plugin_dynamic_start env c plugin_path ld)"
    by (simp add: json_plugin_control_def json_plugin_control_subcmd_def param_subcommand_def
        subcommands_def param_subcommand_string_def)
  show ?thesis
    using eq disp by (simp add: new_calls_def mentions_already_registered)
qed

theorem start_already_registered_witness:
  "json_plugin_control env0 7 [''start'', ''/bin/true'']
      (ld0\<lparr>plugins := plugins ld0 @ [\<lparr>cmd = ''/bin/true'', dynamic = True, plugin_state = INIT_COMPLETE\<rparr>]\<rparr>) =
     Some (Complete,
        ld0\<lparr>plugins := [bcli, foo, \<lparr>cmd = ''/bin/true'', dynamic = True, plugin_state = INIT_COMPLETE\<rparr>],
            calls := [Command_fail 7 JSONRPC2_INVALID_PARAMS ''/bin/true: already registered'']\<rparr>)"
proof -
  have a: "''/bin/true'' \<in> set (map cmd (plugins
      (ld0\<lparr>plugins := plugins ld0 @ [\<lparr>cmd = ''/bin/true'', dynamic = True, plugin_state = INIT_COMPLETE\<rparr>]\<rparr>)))"
    by simp
  have x: "access_X_OK env0 ''/bin/true''"
    by (simp add: env0_def)
  show ?thesis
    using start_already_registered [OF a, of env0 7] x
    by (simp add: ld0_def)
qed

text \<open>
  Claim C6. A start request whose path does not pass \<^verbatim>\<open>access(path, X_OK)\<close> fails at
  once with \<^verbatim>\<open>JSONRPC2_INVALID_PARAMS\<close>; \<^verbatim>\<open>plugin_register\<close> is not reached, so
  the registry of the resulting state is the one the request found, and nothing but the
  failure reply is added to the log.
\<close>

theorem start_not_executable:
  assumes "\<not> access_X_OK env plugin_path"
  shows "json_plugin_control env c [''start'', plugin_path] ld =
           Some (Complete, ld\<lparr>calls := calls ld @
              [Command_fail c JSONRPC2_INVALID_PARAMS
                 (plugin_path @ '' is not executable: '' @ strerror_errno env plugin_path)]\<rparr>)"
  using assms
  by (simp add: json_plugin_control_def json_plugin_control_subcmd_def param_subcommand_def
      subcommands_def param_subcommand_string_def command_fail_def)

theorem start_not_executable_witness:
  "json_plugin_control env0 7 [''start'', ''/bin/missing''] ld0 =
     Some (Complete, ld0\<lparr>calls :=
        [Command_fail 7 JSONRPC2_INVALID_PARAMS
           ''/bin/missing is not executable: No such file or directory'']\<rparr>)"
proof -
  have a: "\<not> access_X_OK env0 ''/bin/missing''"
    by (simp add: env0_def)
  have s: "strerror_errno env0 ''/bin/missing'' = ''No such file or directory''"
    by (simp add: env0_def)
  show ?thesis
    using start_not_executable [OF a, of 7 ld0] s
    by (simp add: ld0_def)
qed

section \<open>Listing the plugins\<close>

text \<open>
  Claim C7. A list request succeeds at once: \<^verbatim>\<open>json_plugin_control\<close> returns what
  \<^verbatim>\<open>plugin_dynamic_list_plugins\<close> returns on the registry, and that is a success reply
  whose \<^verbatim>\<open>plugins\<close> array has one object for every registered plugin, in the order
  of the registry list (new records are appended to it), holding \<^verbatim>\<open>name\<close>, the
  path the plugin was launched with, and \<^verbatim>\<open>active\<close>, true exactly when the state is
  \<^verbatim>\<open>INIT_COMPLETE\<close>.
\<close>

theorem list_enumerates_registry:
  "json_plugin_control env c [''list''] ld =
     Some (plugin_dynamic_list_plugins c (plugins ld) ld)
   \<and> (\<exists>items.
        plugin_dynamic_list_plugins c ps ld =
          (Complete, ld\<lparr>calls := calls ld @ [Command_success c [(''plugins'', JArray items)]]\<rparr>)
        \<and> length items = length ps
        \<and> (\<forall>i<length ps.
             items ! i = JObject [(''name'', JString (cmd (ps ! i))),
                                  (''active'', JBool (plugin_state (ps ! i) = INIT_COMPLETE))]))"
proof -
  let ?items = "map (\<lambda>p. JObject [(''name'', JString (cmd p)),
                                  (''active'', JBool (plugin_state p = INIT_COMPLETE))]) ps"
  have d: "json_plugin_control env c [''list''] ld =
     Some (plugin_dynamic_list_plugins c (plugins ld) ld)"
    by (simp add: json_plugin_control_def json_plugin_control_subcmd_def param_subcommand_def
        subcommands_def param_subcommand_only_def)
  have r: "plugin_dynamic_list_plugins c ps ld =
          (Complete, ld\<lparr>calls := calls ld @ [Command_success c [(''plugins'', JArray ?items)]]\<rparr>)"
    by (simp add: plugin_dynamic_list_plugins_def command_success_def json_stream_success_def
        json_add_array_def)
  have n: "length ?items = length ps"
    by simp
  have e: "\<forall>i<length ps.
             ?items ! i = JObject [(''name'', JString (cmd (ps ! i))),
                                  (''active'', JBool (plugin_state (ps ! i) = INIT_COMPLETE))]"
    by simp
  from r n e have "\<exists>items.
        plugin_dynamic_list_plugins c ps ld =
          (Complete, ld\<lparr>calls := calls ld @ [Command_success c [(''plugins'', JArray items)]]\<rparr>)
        \<and> length items = length ps
        \<and> (\<forall>i<length ps.
             items ! i = JObject [(''name'', JString (cmd (ps ! i))),
                                  (''active'', JBool (plugin_state (ps ! i) = INIT_COMPLETE))])"
    by blast
  with d show ?thesis by simp
qed

theorem list_enumerates_registry_witness:
  "json_plugin_control env0 7 [''list''] ld0 =
     Some (Complete,
        ld0\<lparr>calls := [Command_success 7
          [(''plugins'',
            JArray [JObject [(''name'', JString ''/usr/libexec/bcli''), (''active'', JBool True)],
                    JObject [(''name'', JString ''/opt/plugins/foo''), (''active'', JBool True)]])]]\<rparr>)"
proof -
  from list_enumerates_registry [of env0 7 ld0 "plugins ld0"]
  obtain items where d: "json_plugin_control env0 7 [''list''] ld0 =
        Some (plugin_dynamic_list_plugins 7 (plugins ld0) ld0)"
    and r: "plugin_dynamic_list_plugins 7 (plugins ld0) ld0 =
        (Complete, ld0\<lparr>calls := calls ld0 @ [Command_success 7 [(''plugins'', JArray items)]]\<rparr>)"
    and n: "length items = length (plugins ld0)"
    and e: "\<forall>i<length (plugins ld0).
        items ! i = JObject [(''name'', JString (cmd (plugins ld0 ! i))),
                             (''active'', JBool (plugin_state (plugins ld0 ! i) = INIT_COMPLETE))]"
    by blast
  have l: "length (plugins ld0) = 2"
    by (simp add: ld0_def)
  from e l have e0: "items ! 0 = JObject [(''name'', JString (cmd (plugins ld0 ! 0))),
                             (''active'', JBool (plugin_state (plugins ld0 ! 0) = INIT_COMPLETE))]"
    by simp
  from e l have e1: "items ! 1 = JObject [(''name'', JString (cmd (plugins ld0 ! 1))),
                             (''active'', JBool (plugin_state (plugins ld0 ! 1) = INIT_COMPLETE))]"
    by simp
  from n l obtain x y where xy: "items = [x, y]"
    by (auto simp: length_Suc_conv numeral_2_eq_2)
  with e0 e1 have "items =
      [JObject [(''name'', JString ''/usr/libexec/bcli''), (''active'', JBool True)],
       JObject [(''name'', JString ''/opt/plugins/foo''), (''active'', JBool True)]]"
    by (simp add: ld0_def bcli_def foo_def)
  with d r show ?thesis
    by (simp add: ld0_def)
qed

section \<open>Starting a directory of plugins\<close>

text \<open>
  Claim C8, as the code has it. A startdir request on a directory that exists and in
  which the scan finds no plugin at all (the cohort has size 0) replies success at once
  with the list of the registry, whatever else the daemon is waiting for. The registry
  is unchanged, no getmanifest request is sent and the command is not pending.
\<close>

theorem startdir_nothing_found:
  assumes "access_F_OK env dir_path"
    and "discover_executables env dir_path False = Inr []"
  shows "json_plugin_control env c [''startdir'', dir_path] ld =
           Some (plugin_dynamic_list_plugins c (plugins ld) (ld\<lparr>newly_registered := []\<rparr>))
     \<and> json_plugin_control env c [''startdir'', dir_path] ld =
           Some (Complete,
             ld\<lparr>newly_registered := [],
                calls := calls (snd (plugin_dynamic_list_plugins c (plugins ld) ld))\<rparr>)
     \<and> handshakes (new_calls ld
           (snd (plugin_dynamic_list_plugins c (plugins ld) (ld\<lparr>newly_registered := []\<rparr>)))) = []"
proof -
  have "add_plugin_dir env ld dir_path False = (None, ld\<lparr>newly_registered := []\<rparr>)"
    using assms(2) by (simp add: add_plugin_dir_def)
  then have "plugin_dynamic_startdir env c dir_path ld =
      plugin_dynamic_list_plugins c (plugins ld) (ld\<lparr>newly_registered := []\<rparr>)"
    by (simp add: plugin_dynamic_startdir_def plugin_register_all_complete_def
        plugin_cmd_all_complete_def)
  then have "json_plugin_control env c [''startdir'', dir_path] ld =
           Some (plugin_dynamic_list_plugins c (plugins ld) (ld\<lparr>newly_registered := []\<rparr>))"
    using assms(1)
    by (simp add: json_plugin_control_def json_plugin_control_subcmd_def param_subcommand_def
        subcommands_def param_subcommand_string_def)
  then show ?thesis
    by (simp add: plugin_dynamic_list_plugins_def command_success_def new_calls_def)
qed

theorem startdir_nothing_found_witness:
  "json_plugin_control env0 7 [''startdir'', ''/empty/dir''] ld0 =
     Some (Complete,
        ld0\<lparr>calls := [Command_success 7
          [(''plugins'',
            JArray [JObject [(''name'', JString ''/usr/libexec/bcli''), (''active'', JBool True)],
                    JObject [(''name'', JString ''/opt/plugins/foo''), (''active'', JBool True)]])]]\<rparr>)"
proof -
  have a: "access_F_OK env0 ''/empty/dir''"
    by (simp add: env0_def)
  have b: "discover_executables env0 ''/empty/dir'' False = Inr []"
    by (simp add: env0_def)
  have v: "plugin_dynamic_list_plugins 7 (plugins ld0) ld0 =
     (Complete,
        ld0\<lparr>calls := [Command_success 7
          [(''plugins'',
            JArray [JObject [(''name'', JString ''/usr/libexec/bcli''), (''active'', JBool True)],
                    JObject [(''name'', JString ''/opt/plugins/foo''), (''active'', JBool True)]])]]\<rparr>)"
    by (simp add: plugin_dynamic_list_plugins_def command_success_def json_stream_success_def
        json_add_array_def ld0_def bcli_def foo_def)
  show ?thesis
    using startdir_nothing_found [OF a b, of 7 ld0] v
    by (simp add: ld0_def)
qed

text \<open>
  Claim C8, as the spec states it, fails. The directory \<^verbatim>\<open>/opt/plugins\<close> exists and
  holds one plugin, which is registered already, so it contains no plugin that is not
  registered yet. The scan of a startdir request may not skip a known plugin: the
  request fails with \<^verbatim>\<open>JSONRPC2_INVALID_PARAMS\<close> and sends no success reply.
\<close>

theorem startdir_known_plugin_fails:
  "access_F_OK env0 ''/opt/plugins''
   \<and> discover_executables env0 ''/opt/plugins'' False = Inr [''/opt/plugins/foo'']
   \<and> ''/opt/plugins/foo'' \<in> set (map cmd (plugins ld0))
   \<and> json_plugin_control env0 7 [''startdir'', ''/opt/plugins''] ld0 =
       Some (Complete,
         ld0\<lparr>calls := [Command_fail 7 JSONRPC2_INVALID_PARAMS
                          ''Failed to register /opt/plugins/foo'']\<rparr>)
   \<and> json_plugin_control env0 7 [''startdir'', ''/opt/plugins''] ld0 \<noteq>
       Some (plugin_dynamic_list_plugins 7 (plugins ld0) ld0)"
  by (simp add: json_plugin_control_def json_plugin_control_subcmd_def param_subcommand_def
      subcommands_def param_subcommand_string_def plugin_dynamic_startdir_def
      add_plugin_dir_def plugin_register_def command_fail_def command_success_def
      plugin_dynamic_list_plugins_def env0_def ld0_def foo_def bcli_def)

section \<open>The dispatch chain\<close>

text \<open>
  Claim C10. For each of the five tokens \<^verbatim>\<open>param_subcommand\<close> accepts, the dispatch
  chain of \<^verbatim>\<open>json_plugin_control\<close> returns from a handler branch;
  \<^verbatim>\<open>param_subcommand\<close> returns no other token, so \<^verbatim>\<open>json_plugin_control\<close> never
  reaches the trailing \<^verbatim>\<open>abort()\<close>.
\<close>

theorem abort_unreachable:
  "(subcmd \<in> set subcommands \<longrightarrow> json_plugin_control_subcmd env c subcmd params ld \<noteq> None)
   \<and> (param_subcommand params subcommands = Some subcmd \<longrightarrow> subcmd \<in> set subcommands)
   \<and> json_plugin_control env c params ld \<noteq> None"
proof -
  have a: "subcmd \<in> set subcommands \<Longrightarrow> json_plugin_control_subcmd env c subcmd params ld \<noteq> None"
    for subcmd
    by (auto simp: subcommands_def json_plugin_control_subcmd_def split: option.split)
  have b: "param_subcommand params subcommands = Some subcmd \<Longrightarrow> subcmd \<in> set subcommands"
    for subcmd
    by (simp add: param_subcommand_def split: list.splits if_splits)
  have "json_plugin_control env c params ld \<noteq> None"
    using a b by (simp add: json_plugin_control_def split: option.split)
  with a b show ?thesis by blast
qed

theorem abort_unreachable_witness:
  "''rescan'' \<in> set subcommands
   \<and> json_plugin_control_subcmd env0 7 ''rescan'' [''rescan''] ld0 \<noteq> None
   \<and> param_subcommand [''rescan''] subcommands = Some ''rescan''
   \<and> json_plugin_control env0 7 [''rescan''] ld0 \<noteq> None"
proof -
  have a: "''rescan'' \<in> set subcommands"
    by (simp add: subcommands_def)
  have b: "param_subcommand [''rescan''] subcommands = Some ''rescan''"
    by (simp add: param_subcommand_def subcommands_def)
  show ?thesis
    using abort_unreachable [of "''rescan''" env0 7 "[''rescan'']" ld0] a b
    by simp
qed

section \<open>Which records are killed\<close>

lemma list_plugins_calls:
  "plugin_dynamic_list_plugins c ps ld = (r, ld') \<Longrightarrow>
     r = Complete \<and> plugins ld' = plugins ld \<and> (\<exists>response. calls ld' = calls ld @ [Command_success c response])"
  by (auto simp: plugin_dynamic_list_plugins_def command_success_def)

lemma register_all_complete_calls:
  "plugin_register_all_complete ld c = Some (r, ld') \<Longrightarrow>
     r = Complete \<and> plugins ld' = plugins ld \<and> (\<exists>response. calls ld' = calls ld @ [Command_success c response])"
  by (auto simp: plugin_register_all_complete_def plugin_cmd_all_complete_def
      dest: list_plugins_calls split: if_splits)

lemma register_each_calls:
  "calls (snd (register_each env skip_known paths ld)) = calls ld"
  by (induction env skip_known paths ld rule: register_each.induct)
    (auto split: option.split)

lemma add_plugin_dir_calls:
  assumes "add_plugin_dir env ld dir skip_known = (err, ld')"
  shows "calls ld' = calls ld"
proof (cases "discover_executables env dir skip_known")
  case (Inl e)
  with assms show ?thesis
    by (simp add: add_plugin_dir_def)
next
  case (Inr paths)
  with assms have "ld' = snd (register_each env skip_known paths (ld\<lparr>newly_registered := []\<rparr>))"
    by (simp add: add_plugin_dir_def)
  then show ?thesis
    by (simp add: register_each_calls)
qed

lemma plugins_add_default_dir_calls:
  "calls (plugins_add_default_dir env ld) = calls ld"
  by (simp add: plugins_add_default_dir_def register_each_calls)

lemma stop_no_static_kill:
  "plugin_dynamic_stop env c name ld = (r, ld') \<Longrightarrow>
     \<forall>p\<in>set (kills (new_calls ld ld')). dynamic p"
  by (auto simp: plugin_dynamic_stop_def stop_from_find command_fail_def command_success_def
      plugin_kill_def new_calls_def split: option.splits if_splits)

lemma start_no_kill:
  "plugin_dynamic_start env c path ld = (r, ld') \<Longrightarrow> kills (new_calls ld ld') = []"
  by (auto simp: plugin_dynamic_start_def plugin_send_getmanifest_def command_fail_def
      command_still_pending_def new_calls_def split: option.splits)

lemma startdir_no_kill:
  "plugin_dynamic_startdir env c dir ld = (r, ld') \<Longrightarrow> kills (new_calls ld ld') = []"
  by (auto simp: plugin_dynamic_startdir_def plugins_send_getmanifest_def command_fail_def
      command_still_pending_def new_calls_def
      dest!: register_all_complete_calls add_plugin_dir_calls split: prod.splits option.splits)

lemma rescan_no_kill:
  "plugin_dynamic_rescan_plugins env c ld = (r, ld') \<Longrightarrow> kills (new_calls ld ld') = []"
  by (auto simp: plugin_dynamic_rescan_plugins_def command_still_pending_def new_calls_def Let_def
      plugins_add_default_dir_calls dest!: register_all_complete_calls split: option.splits)

lemma list_no_kill:
  "plugin_dynamic_list_plugins c ps ld = (r, ld') \<Longrightarrow> kills (new_calls ld ld') = []"
  by (auto simp: new_calls_def dest!: list_plugins_calls)

lemma deliver_no_kill:
  "kills (new_calls ld (snd (deliver c s ld))) = []"
  by (cases s)
    (simp_all add: plugin_cmd_succeeded_def plugin_cmd_killed_def plugin_cmd_all_complete_def
      plugin_dynamic_list_plugins_def command_success_def command_fail_def new_calls_def)

text \<open>
  Claim C9. Whatever the request, every record \<^verbatim>\<open>json_plugin_control\<close> calls
  \<^verbatim>\<open>plugin_kill\<close> on has its \<^verbatim>\<open>dynamic\<close> flag set: the stop handler tests the
  flag first and fails when it is unset, and no other handler kills. The completion
  callbacks kill nothing either.
\<close>

theorem never_kills_static_plugin:
  "(json_plugin_control env c params ld = Some (r, ld') \<longrightarrow>
      (\<forall>p\<in>set (kills (new_calls ld ld')). dynamic p))
   \<and> kills (new_calls ld (snd (deliver c s ld))) = []"
proof -
  have "\<forall>p\<in>set (kills (new_calls ld ld')). dynamic p"
    if "json_plugin_control env c params ld = Some (r, ld')"
  proof (cases "param_subcommand params subcommands")
    case None
    with that show ?thesis
      by (simp add: json_plugin_control_def command_param_failed_def new_calls_def)
  next
    case (Some subcmd)
    with that have sub: "json_plugin_control_subcmd env c subcmd params ld = Some (r, ld')"
      by (simp add: json_plugin_control_def)
    have pf: "command_param_failed ld = (r, ld') \<Longrightarrow> kills (new_calls ld ld') = []"
      by (auto simp: command_param_failed_def new_calls_def)
    have cf: "command_fail c code msg ld = (r, ld') \<Longrightarrow> kills (new_calls ld ld') = []"
      for code msg
      by (auto simp: command_fail_def new_calls_def)
    from sub show ?thesis
      unfolding json_plugin_control_subcmd_def
      by (auto split: if_splits option.splits
          dest: pf cf stop_no_static_kill start_no_kill startdir_no_kill rescan_no_kill list_no_kill)
  qed
  then show ?thesis
    by (simp add: deliver_no_kill)
qed

theorem never_kills_static_plugin_witness:
  "json_plugin_control env0 7 [''stop'', ''foo''] ld0 =
     Some (Complete,
      ld0\<lparr>plugins := [bcli, foo\<lparr>plugin_state := KILLED\<rparr>],
          calls := [Plugin_kill foo ''stopped by lightningd via RPC'',
                    Command_success 7 [(''result'', JString ''Successfully stopped foo.'')]]\<rparr>)
   \<and> kills (new_calls ld0
        (ld0\<lparr>plugins := [bcli, foo\<lparr>plugin_state := KILLED\<rparr>],
             calls := [Plugin_kill foo ''stopped by lightningd via RPC'',
                       Command_success 7 [(''result'', JString ''Successfully stopped foo.'')]]\<rparr>)) = [foo]
   \<and> dynamic foo"
proof -
  let ?ld' = "ld0\<lparr>plugins := [bcli, foo\<lparr>plugin_state := KILLED\<rparr>],
       calls := [Plugin_kill foo ''stopped by lightningd via RPC'',
                 Command_success 7 [(''result'', JString ''Successfully stopped foo.'')]]\<rparr>"
  have r: "json_plugin_control env0 7 [''stop'', ''foo''] ld0 = Some (Complete, ?ld')"
    by (simp add: json_plugin_control_def json_plugin_control_subcmd_def param_subcommand_def
        subcommands_def param_subcommand_string_def plugin_dynamic_stop_def ld0_def env0_def
        foo_def bcli_def plugin_paths_match_def path_basename_def plugin_kill_def
        command_success_def json_stream_success_def json_add_string_def)
  have k: "kills (new_calls ld0 ?ld') = [foo]"
    by (simp add: new_calls_def ld0_def)
  from never_kills_static_plugin [of env0 7 "[''stop'', ''foo'']" ld0 Complete ?ld'] r
  have "\<forall>p\<in>set (kills (new_calls ld0 ?ld')). dynamic p"
    by blast
  with k have "dynamic foo"
    by simp
  with r k show ?thesis
    by blast
qed

section \<open>The completion callbacks\<close>

lemma deliver_replies_once:
  "fst (deliver c s ld) = Complete
   \<and> length (replies_to c (snd (deliver c s ld))) = Suc (length (replies_to c ld))"
  by (cases s)
    (simp_all add: plugin_cmd_succeeded_def plugin_cmd_killed_def plugin_cmd_all_complete_def
      plugin_dynamic_list_plugins_def command_success_def command_fail_def replies_to_def)

lemma deliver_all_replies:
  "length (replies_to c (deliver_all c sigs ld)) = length (replies_to c ld) + length sigs"
  by (induction sigs arbitrary: ld) (simp_all add: deliver_replies_once)

text \<open>
  Claim C1, as the code has it. Each completion signal (\<^verbatim>\<open>plugin_cmd_succeeded\<close>,
  \<^verbatim>\<open>plugin_cmd_killed\<close>, \<^verbatim>\<open>plugin_cmd_all_complete\<close>) hands exactly one terminal
  reply for its command to the transport, whatever came before: the file keeps no
  resolved flag. After a sequence of signals the command has received as many further
  replies as there were signals, so a command with no reply yet is answered at most once
  exactly when at most one signal is delivered for it.
\<close>

theorem every_signal_replies:
  "fst (deliver c s ld) = Complete
   \<and> length (replies_to c (snd (deliver c s ld))) = length (replies_to c ld) + 1
   \<and> length (replies_to c (deliver_all c sigs ld)) = length (replies_to c ld) + length sigs
   \<and> (replies_to c ld = [] \<longrightarrow>
        (length (replies_to c (deliver_all c sigs ld)) \<le> 1 \<longleftrightarrow> length sigs \<le> 1))"
  by (simp add: deliver_replies_once deliver_all_replies)

theorem every_signal_replies_witness:
  "replies_to 7 ld0 = []
   \<and> length (replies_to 7 (deliver_all 7 [Killed foo ''exited''] ld0)) \<le> 1
   \<and> length (replies_to 7 (deliver_all 7 [Killed foo ''exited'', Succeeded bcli, All_complete] ld0)) = 3"
proof -
  have a: "replies_to 7 ld0 = []"
    by (simp add: replies_to_def ld0_def)
  show ?thesis
    using every_signal_replies [of 7 "Killed foo ''exited''" ld0 "[Killed foo ''exited'']"]
      every_signal_replies [of 7 "Killed foo ''exited''" ld0
        "[Killed foo ''exited'', Succeeded bcli, All_complete]"] a
    by simp
qed

text \<open>
  Claim C1, as the spec states it, fails. A cohort member is killed and another one
  succeeds afterwards: the command receives the failure and then a success reply, and
  the second signal is not a no-op.
\<close>

theorem second_signal_replies_again:
  "replies_to 7 (deliver_all 7 [Killed foo ''exited'', Succeeded bcli] ld0) =
     [Command_fail 7 PLUGIN_ERROR ''/opt/plugins/foo: exited'',
      Command_success 7
        [(''plugins'',
          JArray [JObject [(''name'', JString ''/usr/libexec/bcli''), (''active'', JBool True)],
                  JObject [(''name'', JString ''/opt/plugins/foo''), (''active'', JBool True)]])]]
   \<and> \<not> length (replies_to 7 (deliver_all 7 [Killed foo ''exited'', Succeeded bcli] ld0)) \<le> 1
   \<and> snd (deliver 7 (Succeeded bcli) (snd (deliver 7 (Killed foo ''exited'') ld0)))
       \<noteq> snd (deliver 7 (Killed foo ''exited'') ld0)"
  by (simp add: plugin_cmd_succeeded_def plugin_cmd_killed_def
      plugin_dynamic_list_plugins_def command_success_def command_fail_def replies_to_def
      json_stream_success_def json_add_array_def ld0_def foo_def bcli_def)

end
